theory Spec2Isabelle
  imports Main "HOL-Library.Word"
begin

section \<open>Memory model\<close>

text \<open>
  The translation unit \<^verbatim>\<open>src/sys/cxx/gen0.cxx\<close> consists of \<^verbatim>\<open>extern "C"\<close>
  trampolines over \<^verbatim>\<open>std::unique_ptr\<close>, \<^verbatim>\<open>std::shared_ptr\<close>, \<^verbatim>\<open>std::weak_ptr\<close>,
  \<^verbatim>\<open>std::vector\<close> and the member functions of \<^verbatim>\<open>RE::Calendar\<close>. Each trampoline is
  embedded as a function on an explicit heap; the members of the C++ standard library it
  calls are embedded beside it, following the effects the ISO C++ standard gives for them.

  Addresses are natural numbers, \<open>0\<close> is the null pointer. Allocation is assumed to
  succeed: every trampoline is \<^verbatim>\<open>noexcept\<close>, so a failing \<^verbatim>\<open>operator new\<close> terminates
  the process and leaves no state to speak about.
\<close>

type_synonym addr = nat

type_synonym c_uint = "32 word"

text \<open>
  A call that violates a precondition of the C++ abstract machine (using an object outside
  its lifetime, reading an empty vector's last element) has undefined behaviour. It is a
  value of the model, so that no theorem silently assumes it away.
\<close>

datatype fault = UB

text \<open>
  Storage the caller hands over by pointer or reference either holds no object (\<open>Raw\<close>:
  never constructed, or already destroyed) or holds a live object (\<open>Obj\<close>).
\<close>

datatype 'a slot = Raw | Obj 'a

text \<open>
  The heap records what the properties proved below observe:
  \<^item> \<open>allocated\<close>: the addresses handed out by \<^verbatim>\<open>operator new\<close> and not yet deleted;
  \<^item> \<open>dtor_log\<close>: the referents whose destructor has run through a \<^verbatim>\<open>delete\<close>
    expression, in order (the construction/destruction counter of a tracking stub);
  \<^item> \<open>owned\<close>, \<open>use_count\<close>, \<open>weak_count\<close>: per control block, the pointer it
    owns and the number of \<^verbatim>\<open>shared_ptr\<close> and of \<^verbatim>\<open>weak_ptr\<close> instances sharing
    ownership;
  \<^item> \<open>next_cb\<close>: the next unused control block;
  \<^item> \<open>strings\<close>: the contents of the heap-allocated \<^verbatim>\<open>std::string\<close> objects.
\<close>

record heap =
  allocated :: "addr list"
  dtor_log :: "addr list"
  owned :: "nat \<Rightarrow> addr"
  use_count :: "nat \<Rightarrow> nat"
  weak_count :: "nat \<Rightarrow> nat"
  next_cb :: nat
  strings :: "addr \<Rightarrow> string option"

definition empty_heap :: heap where
  "empty_heap = \<lparr>allocated = [], dtor_log = [], owned = (\<lambda>_. 0), use_count = (\<lambda>_. 0),
     weak_count = (\<lambda>_. 0), next_cb = 0, strings = (\<lambda>_. None)\<rparr>"

text \<open>\<^verbatim>\<open>operator new\<close>: an address that is not null and not in use.\<close>

definition fresh_addr :: "addr list \<Rightarrow> addr" where
  "fresh_addr used = Suc (foldr max used 0)"

definition operator_new :: "heap \<Rightarrow> addr \<times> heap" where
  "operator_new h = (let p = fresh_addr (allocated h) in (p, h\<lparr>allocated := p # allocated h\<rparr>))"

text \<open>
  \<^verbatim>\<open>delete p\<close> for a non-null \<open>p\<close>: the destructor of the referent runs, then the storage
  is released, and nothing is left to read at \<open>p\<close>. \<^verbatim>\<open>delete\<close> of a null pointer does
  nothing.
\<close>

definition delete_ptr :: "heap \<Rightarrow> addr \<Rightarrow> heap" where
  "delete_ptr h p =
     (if p = 0 then h
      else h\<lparr>dtor_log := dtor_log h @ [p], allocated := removeAll p (allocated h),
             strings := (strings h)(p := None)\<rparr>)"

text \<open>Writing the counts of one control block.\<close>

definition set_use_count :: "heap \<Rightarrow> nat \<Rightarrow> nat \<Rightarrow> heap" where
  "set_use_count h c n = h\<lparr>use_count := (use_count h)(c := n)\<rparr>"

definition set_weak_count :: "heap \<Rightarrow> nat \<Rightarrow> nat \<Rightarrow> heap" where
  "set_weak_count h c n = h\<lparr>weak_count := (weak_count h)(c := n)\<rparr>"

section \<open>Exclusive handles: \<^verbatim>\<open>std::unique_ptr\<close>\<close>

text \<open>A \<^verbatim>\<open>std::unique_ptr<T>\<close> with the default deleter is its stored pointer.\<close>

datatype unique_ptr = UniquePtr (stored: addr)

text \<open>
  \<^verbatim>\<open>unique_ptr::release()\<close>: returns the stored pointer and stores null.
  \<^verbatim>\<open>unique_ptr::~unique_ptr()\<close>: \<^verbatim>\<open>if (get()) get_deleter()(get())\<close>, the default
  deleter being \<^verbatim>\<open>delete\<close>.
\<close>

definition std_unique_ptr_release :: "unique_ptr \<Rightarrow> addr \<times> unique_ptr" where
  "std_unique_ptr_release u = (stored u, UniquePtr 0)"

definition std_unique_ptr_dtor :: "heap \<Rightarrow> unique_ptr \<Rightarrow> heap" where
  "std_unique_ptr_dtor h u = (if stored u \<noteq> 0 then delete_ptr h (stored u) else h)"

text \<open>
  The trampolines \<^verbatim>\<open>cxxbridge1$unique_ptr$RE$Calendar$...\<close> (lines 293 to 312); those
  for \<^verbatim>\<open>tm\<close> (lines 355 to 374) are the same text with the other type name.
  \<open>null\<close>, \<open>uninit\<close> and \<open>raw\<close> construct into the storage \<open>ptr\<close> by placement new:
  its new content does not depend on what it held.
\<close>

definition unique_ptr_null :: "unique_ptr slot \<Rightarrow> unique_ptr slot" where
  "unique_ptr_null ptr = Obj (UniquePtr 0)"

definition unique_ptr_uninit :: "heap \<Rightarrow> unique_ptr slot \<Rightarrow> heap \<times> unique_ptr slot \<times> addr" where
  "unique_ptr_uninit h ptr = (let (uninit, h') = operator_new h in (h', Obj (UniquePtr uninit), uninit))"

definition unique_ptr_raw :: "unique_ptr slot \<Rightarrow> addr \<Rightarrow> unique_ptr slot" where
  "unique_ptr_raw ptr raw = Obj (UniquePtr raw)"

text \<open>
  \<open>get\<close> is \<^verbatim>\<open>return ptr.get();\<close> on a reference to the handle. Like every other
  trampoline it runs on the whole memory, so it is given the heap and the storage of the
  handle and returns both beside the pointer: what the call leaves as it was is then a
  statement about the function.
\<close>

definition unique_ptr_get ::
  "heap \<Rightarrow> unique_ptr slot \<Rightarrow> fault + (heap \<times> unique_ptr slot \<times> addr)" where
  "unique_ptr_get h ptr = (case ptr of Raw \<Rightarrow> Inl UB | Obj u \<Rightarrow> Inr (h, Obj u, stored u))"

definition unique_ptr_release :: "unique_ptr slot \<Rightarrow> fault + (addr \<times> unique_ptr slot)" where
  "unique_ptr_release ptr =
     (case ptr of Raw \<Rightarrow> Inl UB
      | Obj u \<Rightarrow> (let (p, u') = std_unique_ptr_release u in Inr (p, Obj u')))"

text \<open>
  \<^verbatim>\<open>ptr->~unique_ptr()\<close>: the destructor runs on a live handle and ends its lifetime.
  The standard gives no state to a destroyed handle (implementations differ on whether
  the destructor resets the stored pointer), and invoking a destructor on storage that
  holds no live object is undefined.
\<close>

definition destroy_unique_ptr :: "heap \<Rightarrow> unique_ptr slot \<Rightarrow> fault + (heap \<times> unique_ptr slot)" where
  "destroy_unique_ptr h ptr =
     (case ptr of Raw \<Rightarrow> Inl UB | Obj u \<Rightarrow> Inr (std_unique_ptr_dtor h u, Raw))"

text \<open>
  \<^verbatim>\<open>deleter_if<false>\<close> does nothing, \<^verbatim>\<open>deleter_if<true>\<close> calls \<^verbatim>\<open>ptr->~T()\<close> with
  \<^verbatim>\<open>T = std::unique_ptr<...>\<close> (lines 146 to 152).
\<close>

definition deleter_if :: "bool \<Rightarrow> heap \<Rightarrow> unique_ptr slot \<Rightarrow> fault + (heap \<times> unique_ptr slot)" where
  "deleter_if b h ptr = (if b then destroy_unique_ptr h ptr else Inr (h, ptr))"

text \<open>
  \<^verbatim>\<open>static_assert(::rust::detail::is_complete<::RE::Calendar>::value, ...)\<close> (line 290):
  the translation unit only builds with the definition of \<^verbatim>\<open>Calendar\<close> in scope.
\<close>

definition is_complete_Calendar :: bool where
  "is_complete_Calendar = True"

definition unique_ptr_drop :: "heap \<Rightarrow> unique_ptr slot \<Rightarrow> fault + (heap \<times> unique_ptr slot)" where
  "unique_ptr_drop h ptr = deleter_if is_complete_Calendar h ptr"

text \<open>Sequencing of calls: the first fault ends the run.\<close>

definition and_then :: "fault + 'a \<Rightarrow> ('a \<Rightarrow> fault + 'b) \<Rightarrow> fault + 'b" where
  "and_then m f = (case m of Inl e \<Rightarrow> Inl e | Inr x \<Rightarrow> f x)"

text \<open>
  A run of calls on one exclusive handle, each call on the storage the call before it
  left. The first fault ends the run.
\<close>

datatype unique_ptr_call = Get | Release | Drop

fun unique_ptr_calls ::
  "heap \<Rightarrow> unique_ptr slot \<Rightarrow> unique_ptr_call list \<Rightarrow> fault + (heap \<times> unique_ptr slot)" where
  "unique_ptr_calls h ptr [] = Inr (h, ptr)"
| "unique_ptr_calls h ptr (Get # cs) =
     (case unique_ptr_get h ptr of Inl e \<Rightarrow> Inl e
      | Inr (h', ptr', _) \<Rightarrow> unique_ptr_calls h' ptr' cs)"
| "unique_ptr_calls h ptr (Release # cs) =
     (case unique_ptr_release ptr of Inl e \<Rightarrow> Inl e
      | Inr (_, ptr') \<Rightarrow> unique_ptr_calls h ptr' cs)"
| "unique_ptr_calls h ptr (Drop # cs) =
     (case unique_ptr_drop h ptr of Inl e \<Rightarrow> Inl e
      | Inr (h', ptr') \<Rightarrow> unique_ptr_calls h' ptr' cs)"

text \<open>
  The exclusive handle of the sequence (lines 433 to 447) has the same \<open>null\<close>, \<open>raw\<close>,
  \<open>get\<close> and \<open>release\<close>; its \<open>drop\<close> calls \<^verbatim>\<open>ptr->~unique_ptr()\<close> directly.
\<close>

definition unique_ptr_vector_drop :: "heap \<Rightarrow> unique_ptr slot \<Rightarrow> fault + (heap \<times> unique_ptr slot)" where
  "unique_ptr_vector_drop h ptr = destroy_unique_ptr h ptr"

section \<open>Shared handles and observers: \<^verbatim>\<open>std::shared_ptr\<close>, \<^verbatim>\<open>std::weak_ptr\<close>\<close>

text \<open>
  A \<^verbatim>\<open>shared_ptr\<close> is its stored pointer and the control block it shares, none when it
  is empty; a \<^verbatim>\<open>weak_ptr\<close> likewise.
\<close>

datatype shared_ptr = SharedPtr (sp_stored: addr) (sp_cb: "nat option")

datatype weak_ptr = WeakPtr (wp_stored: addr) (wp_cb: "nat option")

text \<open>
  \<^verbatim>\<open>shared_ptr(Y* p)\<close>: a new control block that owns \<open>p\<close>, with \<open>use_count() == 1\<close>.
\<close>

definition std_shared_ptr_from_raw :: "heap \<Rightarrow> addr \<Rightarrow> heap \<times> shared_ptr" where
  "std_shared_ptr_from_raw h p =
     (let c = next_cb h in
      (set_weak_count (set_use_count (h\<lparr>owned := (owned h)(c := p), next_cb := Suc c\<rparr>) c 1) c 0,
       SharedPtr p (Some c)))"

text \<open>
  \<^verbatim>\<open>shared_ptr(const shared_ptr& r)\<close>: empty if \<open>r\<close> is empty, otherwise it shares
  ownership with \<open>r\<close>; \<open>get() == r.get()\<close>.
\<close>

definition std_shared_ptr_copy :: "heap \<Rightarrow> shared_ptr \<Rightarrow> heap \<times> shared_ptr" where
  "std_shared_ptr_copy h r =
     (case sp_cb r of None \<Rightarrow> (h, r)
      | Some c \<Rightarrow> (set_use_count h c (use_count h c + 1), r))"

text \<open>
  \<^verbatim>\<open>~shared_ptr()\<close>: no side effect if the handle is empty or shares ownership with
  another instance (\<open>use_count() > 1\<close>) beyond giving up its share; otherwise the owned
  pointer is deleted.
\<close>

definition std_shared_ptr_dtor :: "heap \<Rightarrow> shared_ptr \<Rightarrow> heap" where
  "std_shared_ptr_dtor h s =
     (case sp_cb s of None \<Rightarrow> h
      | Some c \<Rightarrow>
          if use_count h c > 1 then set_use_count h c (use_count h c - 1)
          else delete_ptr (set_use_count h c 0) (owned h c))"

text \<open>
  \<^verbatim>\<open>weak_ptr(const shared_ptr& r)\<close> and \<^verbatim>\<open>weak_ptr(const weak_ptr& r)\<close>: empty if
  \<open>r\<close> is empty, otherwise sharing ownership with \<open>r\<close> and storing its pointer.
  \<^verbatim>\<open>~weak_ptr()\<close> gives the share up and has no effect on the referent.
\<close>

definition std_weak_ptr_from_shared :: "heap \<Rightarrow> shared_ptr \<Rightarrow> heap \<times> weak_ptr" where
  "std_weak_ptr_from_shared h r =
     (case sp_cb r of None \<Rightarrow> (h, WeakPtr 0 None)
      | Some c \<Rightarrow> (set_weak_count h c (weak_count h c + 1), WeakPtr (sp_stored r) (Some c)))"

definition std_weak_ptr_copy :: "heap \<Rightarrow> weak_ptr \<Rightarrow> heap \<times> weak_ptr" where
  "std_weak_ptr_copy h r =
     (case wp_cb r of None \<Rightarrow> (h, WeakPtr 0 None)
      | Some c \<Rightarrow> (set_weak_count h c (weak_count h c + 1), r))"

definition std_weak_ptr_dtor :: "heap \<Rightarrow> weak_ptr \<Rightarrow> heap" where
  "std_weak_ptr_dtor h w =
     (case wp_cb w of None \<Rightarrow> h
      | Some c \<Rightarrow> set_weak_count h c (weak_count h c - 1))"

text \<open>
  \<^verbatim>\<open>weak_ptr::expired()\<close> is \<open>use_count() == 0\<close>, the count of an empty observer being 0;
  \<^verbatim>\<open>weak_ptr::lock()\<close> is \<^verbatim>\<open>expired() ? shared_ptr<T>() : shared_ptr<T>(*this)\<close>.
\<close>

definition std_weak_ptr_expired :: "heap \<Rightarrow> weak_ptr \<Rightarrow> bool" where
  "std_weak_ptr_expired h w = (case wp_cb w of None \<Rightarrow> True | Some c \<Rightarrow> use_count h c = 0)"

definition std_weak_ptr_lock :: "heap \<Rightarrow> weak_ptr \<Rightarrow> heap \<times> shared_ptr" where
  "std_weak_ptr_lock h w =
     (if std_weak_ptr_expired h w then (h, SharedPtr 0 None)
      else case wp_cb w of None \<Rightarrow> (h, SharedPtr 0 None)
           | Some c \<Rightarrow> (set_use_count h c (use_count h c + 1), SharedPtr (wp_stored w) (Some c)))"

text \<open>
  The trampolines \<^verbatim>\<open>cxxbridge1$shared_ptr$RE$Calendar$...\<close> (lines 316 to 332) and
  \<^verbatim>\<open>cxxbridge1$weak_ptr$RE$Calendar$...\<close> (lines 336 to 350); those for \<^verbatim>\<open>tm\<close>
  (lines 378 to 412) are the same text with the other type name.
\<close>

definition shared_ptr_null :: "shared_ptr slot \<Rightarrow> shared_ptr slot" where
  "shared_ptr_null ptr = Obj (SharedPtr 0 None)"

definition shared_ptr_uninit :: "heap \<Rightarrow> shared_ptr slot \<Rightarrow> heap \<times> shared_ptr slot \<times> addr" where
  "shared_ptr_uninit h ptr =
     (let (uninit, h1) = operator_new h;
          (h2, s) = std_shared_ptr_from_raw h1 uninit
      in (h2, Obj s, uninit))"

definition shared_ptr_clone ::
  "heap \<Rightarrow> shared_ptr slot \<Rightarrow> shared_ptr slot \<Rightarrow> fault + (heap \<times> shared_ptr slot)" where
  "shared_ptr_clone h self ptr =
     (case self of Raw \<Rightarrow> Inl UB
      | Obj r \<Rightarrow> (let (h', s) = std_shared_ptr_copy h r in Inr (h', Obj s)))"

definition shared_ptr_get ::
  "heap \<Rightarrow> shared_ptr slot \<Rightarrow> fault + (heap \<times> shared_ptr slot \<times> addr)" where
  "shared_ptr_get h self =
     (case self of Raw \<Rightarrow> Inl UB | Obj s \<Rightarrow> Inr (h, Obj s, sp_stored s))"

definition shared_ptr_drop :: "heap \<Rightarrow> shared_ptr slot \<Rightarrow> fault + (heap \<times> shared_ptr slot)" where
  "shared_ptr_drop h self =
     (case self of Raw \<Rightarrow> Inl UB | Obj s \<Rightarrow> Inr (std_shared_ptr_dtor h s, Raw))"

definition weak_ptr_null :: "weak_ptr slot \<Rightarrow> weak_ptr slot" where
  "weak_ptr_null ptr = Obj (WeakPtr 0 None)"

definition weak_ptr_clone ::
  "heap \<Rightarrow> weak_ptr slot \<Rightarrow> weak_ptr slot \<Rightarrow> fault + (heap \<times> weak_ptr slot)" where
  "weak_ptr_clone h self ptr =
     (case self of Raw \<Rightarrow> Inl UB
      | Obj r \<Rightarrow> (let (h', w) = std_weak_ptr_copy h r in Inr (h', Obj w)))"

definition weak_ptr_downgrade ::
  "heap \<Rightarrow> shared_ptr slot \<Rightarrow> weak_ptr slot \<Rightarrow> fault + (heap \<times> weak_ptr slot)" where
  "weak_ptr_downgrade h shared weak =
     (case shared of Raw \<Rightarrow> Inl UB
      | Obj r \<Rightarrow> (let (h', w) = std_weak_ptr_from_shared h r in Inr (h', Obj w)))"

definition weak_ptr_upgrade ::
  "heap \<Rightarrow> weak_ptr slot \<Rightarrow> shared_ptr slot \<Rightarrow> fault + (heap \<times> shared_ptr slot)" where
  "weak_ptr_upgrade h weak shared =
     (case weak of Raw \<Rightarrow> Inl UB
      | Obj w \<Rightarrow> (let (h', s) = std_weak_ptr_lock h w in Inr (h', Obj s)))"

definition weak_ptr_drop :: "heap \<Rightarrow> weak_ptr slot \<Rightarrow> fault + (heap \<times> weak_ptr slot)" where
  "weak_ptr_drop h self =
     (case self of Raw \<Rightarrow> Inl UB | Obj w \<Rightarrow> Inr (std_weak_ptr_dtor h w, Raw))"

text \<open>
  Call sequences of the claims: \<open>n\<close> calls of \<open>clone\<close> on one handle, each into storage of
  its own, and \<open>drop\<close> on each handle of a list in turn. The first fault ends the run.
\<close>

fun shared_ptr_clone_n :: "nat \<Rightarrow> heap \<Rightarrow> shared_ptr slot \<Rightarrow> fault + (heap \<times> shared_ptr slot list)" where
  "shared_ptr_clone_n 0 h self = Inr (h, [])"
| "shared_ptr_clone_n (Suc n) h self =
     (case shared_ptr_clone h self Raw of Inl e \<Rightarrow> Inl e
      | Inr (h1, c) \<Rightarrow>
          (case shared_ptr_clone_n n h1 self of Inl e \<Rightarrow> Inl e
           | Inr (h2, cs) \<Rightarrow> Inr (h2, c # cs)))"

fun shared_ptr_drop_all :: "heap \<Rightarrow> shared_ptr slot list \<Rightarrow> fault + heap" where
  "shared_ptr_drop_all h [] = Inr h"
| "shared_ptr_drop_all h (s # ss) =
     (case shared_ptr_drop h s of Inl e \<Rightarrow> Inl e
      | Inr (h1, _) \<Rightarrow> shared_ptr_drop_all h1 ss)"

section \<open>The sequence adapter: \<^verbatim>\<open>std::vector<tm>\<close>\<close>

text \<open>
  \<^verbatim>\<open>struct tm\<close> of \<^verbatim>\<open><ctime>\<close>: nine \<^verbatim>\<open>int\<close> members (read with \<open>sint\<close>). It is trivially copyable, so
  moving from a \<^verbatim>\<open>tm\<close> copies it and its destructor only ends the lifetime of the
  object.
\<close>

record tm =
  tm_sec :: "32 word"
  tm_min :: "32 word"
  tm_hour :: "32 word"
  tm_mday :: "32 word"
  tm_mon :: "32 word"
  tm_year :: "32 word"
  tm_wday :: "32 word"
  tm_yday :: "32 word"
  tm_isdst :: "32 word"

text \<open>
  The trampolines \<^verbatim>\<open>cxxbridge1$std$vector$tm$...\<close> (lines 414 to 430). The vector behind
  the pointer is the list of its elements; \<^verbatim>\<open>std::size_t\<close> is a natural number, the
  length of a vector being below \<^verbatim>\<open>max_size()\<close>. \<open>get_unchecked\<close> returns the address of
  an element, modelled by the element it designates; \<^verbatim>\<open>(*s)[pos]\<close> out of range and
  \<^verbatim>\<open>back()\<close> of an empty vector are undefined.
\<close>

definition vector_tm_new :: "tm list" where
  "vector_tm_new = []"

definition vector_tm_size :: "tm list \<Rightarrow> nat" where
  "vector_tm_size s = length s"

definition vector_tm_get_unchecked :: "tm list \<Rightarrow> nat \<Rightarrow> fault + tm" where
  "vector_tm_get_unchecked s pos = (if pos < length s then Inr (s ! pos) else Inl UB)"

definition destroy :: "'a slot \<Rightarrow> fault + 'a slot" where
  "destroy ptr = (case ptr of Raw \<Rightarrow> Inl UB | Obj _ \<Rightarrow> Inr Raw)"

definition vector_tm_push_back :: "tm list \<Rightarrow> tm slot \<Rightarrow> fault + (tm list \<times> tm slot)" where
  "vector_tm_push_back v val =
     (case val of Raw \<Rightarrow> Inl UB
      | Obj x \<Rightarrow> (case destroy val of Inl e \<Rightarrow> Inl e | Inr val' \<Rightarrow> Inr (v @ [x], val')))"

definition vector_tm_pop_back :: "tm list \<Rightarrow> tm slot \<Rightarrow> fault + (tm list \<times> tm slot)" where
  "vector_tm_pop_back v out =
     (if v = [] then Inl UB else Inr (butlast v, Obj (last v)))"

text \<open>\<open>push_back\<close> of each element of a list in turn, each from a caller-side slot of its own.\<close>

fun vector_tm_push_back_all :: "tm list \<Rightarrow> tm list \<Rightarrow> fault + tm list" where
  "vector_tm_push_back_all v [] = Inr v"
| "vector_tm_push_back_all v (x # xs) =
     (case vector_tm_push_back v (Obj x) of Inl e \<Rightarrow> Inl e
      | Inr (v1, _) \<Rightarrow> vector_tm_push_back_all v1 xs)"

section \<open>The relocatability gate\<close>

text \<open>
  \<^verbatim>\<open>rust::IsRelocatable<T>\<close> (lines 110 to 117) is computed by the compiler from three
  facts about \<open>T\<close>: the nested type \<^verbatim>\<open>T::IsRelocatable\<close> if \<open>T\<close> declares one, and the
  two standard traits. A type is described by these facts.
\<close>

datatype cxx_type_name = std_true_type | std_false_type | other_type string

record cxx_type =
  member_IsRelocatable :: "cxx_type_name option"
  is_trivially_move_constructible :: bool
  is_trivially_destructible :: bool

text \<open>
  \<^verbatim>\<open>is_detected<detect_IsRelocatable, T>\<close>: \<^verbatim>\<open>typename T::IsRelocatable\<close> is well formed.
  \<^verbatim>\<open>get_IsRelocatable<T>\<close>: \<^verbatim>\<open>std::is_same<typename T::IsRelocatable, std::true_type>\<close>.
\<close>

definition is_detected_IsRelocatable :: "cxx_type \<Rightarrow> bool" where
  "is_detected_IsRelocatable T = (member_IsRelocatable T \<noteq> None)"

definition get_IsRelocatable :: "cxx_type \<Rightarrow> bool" where
  "get_IsRelocatable T = (member_IsRelocatable T = Some std_true_type)"

definition IsRelocatable :: "cxx_type \<Rightarrow> bool" where
  "IsRelocatable T =
     (if is_detected_IsRelocatable T then get_IsRelocatable T
      else is_trivially_move_constructible T \<and> is_trivially_destructible T)"

text \<open>
  \<^verbatim>\<open>static_assert(::rust::IsRelocatable<::c_uint>::value, "...")\<close> (lines 157 to 159): the
  outcome of building the translation unit, as a function of the type \<^verbatim>\<open>c_uint\<close> names.
  \<^verbatim>\<open>autocxxgen_ffi.h\<close> declares \<^verbatim>\<open>typedef unsigned int c_uint\<close>, a scalar type.
\<close>

datatype build = Compiles | Rejected string

definition static_assert_IsRelocatable :: "cxx_type \<Rightarrow> build" where
  "static_assert_IsRelocatable T =
     (if IsRelocatable T then Compiles
      else Rejected ''type c_uint should be trivially move constructible and trivially destructible in C++'')"

definition c_uint_type :: cxx_type where
  "c_uint_type = \<lparr>member_IsRelocatable = None, is_trivially_move_constructible = True,
     is_trivially_destructible = True\<rparr>"

section \<open>Call trampolines of \<^verbatim>\<open>RE::Calendar\<close>\<close>

text \<open>
  The class \<^verbatim>\<open>RE::Calendar\<close> is declared in \<^verbatim>\<open>wrapper.hpp\<close>, which is not among the
  sources, and what its member functions compute belongs to the host application. They
  are parameters of the model: an object is given by what its \<^verbatim>\<open>const\<close> accessors
  return, the value of \<^verbatim>\<open>self.GetDayOfWeek()\<close> being the field \<open>GetDayOfWeek self\<close>, and
  so on; the text of \<open>GetDayName\<close> and \<open>GetMonthName\<close> is the one the \<^verbatim>\<open>std::string\<close>
  constructor reads.
\<close>

record Calendar =
  GetDayOfWeek :: c_uint
  GetMonth :: c_uint
  GetYear :: c_uint
  GetDayName :: string
  GetMonthName :: string

text \<open>
  \<^verbatim>\<open>RE$cxxbridge1$Calendar$GetDayOfWeek\<close>, \<^verbatim>\<open>...$GetMonth\<close>, \<^verbatim>\<open>...$GetYear\<close> (lines 206,
  231, 257) return \<^verbatim>\<open>void\<close>: their only output is the storage behind \<^verbatim>\<open>return$\<close>, which
  they construct by placement new.
\<close>

definition RE_Calendar_GetDayOfWeek :: "Calendar \<Rightarrow> c_uint slot \<Rightarrow> c_uint slot" where
  "RE_Calendar_GetDayOfWeek self return = Obj (GetDayOfWeek self)"

definition RE_Calendar_GetMonth :: "Calendar \<Rightarrow> c_uint slot \<Rightarrow> c_uint slot" where
  "RE_Calendar_GetMonth self return = Obj (GetMonth self)"

definition RE_Calendar_GetYear :: "Calendar \<Rightarrow> c_uint slot \<Rightarrow> c_uint slot" where
  "RE_Calendar_GetYear self return = Obj (GetYear self)"

text \<open>
  \<^verbatim>\<open>std::make_unique<std::string>(text)\<close>: a new \<^verbatim>\<open>std::string\<close> on the heap holding a
  copy of the text, owned by the handle returned.
\<close>

definition make_unique_string :: "heap \<Rightarrow> string \<Rightarrow> heap \<times> unique_ptr" where
  "make_unique_string h txt =
     (let (p, h') = operator_new h in (h'\<lparr>strings := (strings h')(p \<mapsto> txt)\<rparr>, UniquePtr p))"

text \<open>The wrappers of \<^verbatim>\<open>autocxxgen_ffi.h\<close> (lines 42 and 43).\<close>

definition GetDayName_autocxx_wrapper :: "heap \<Rightarrow> Calendar \<Rightarrow> heap \<times> unique_ptr" where
  "GetDayName_autocxx_wrapper h autocxx_gen_this = make_unique_string h (GetDayName autocxx_gen_this)"

definition GetMonthName_autocxx_wrapper :: "heap \<Rightarrow> Calendar \<Rightarrow> heap \<times> unique_ptr" where
  "GetMonthName_autocxx_wrapper h autocxx_gen_this = make_unique_string h (GetMonthName autocxx_gen_this)"

text \<open>
  \<^verbatim>\<open>cxxbridge1$GetDayName_autocxx_wrapper_...\<close> and \<^verbatim>\<open>cxxbridge1$GetMonthName_autocxx_wrapper_...\<close>
  (lines 198 and 239): the wrapper's result is a temporary handle; \<^verbatim>\<open>release()\<close> takes the
  pointer out of it, and the temporary is destroyed at the end of the statement.
\<close>

definition cxxbridge1_GetDayName :: "heap \<Rightarrow> Calendar \<Rightarrow> heap \<times> addr" where
  "cxxbridge1_GetDayName h autocxx_gen_this =
     (let (h1, tmp) = GetDayName_autocxx_wrapper h autocxx_gen_this;
          (p, tmp') = std_unique_ptr_release tmp
      in (std_unique_ptr_dtor h1 tmp', p))"

definition cxxbridge1_GetMonthName :: "heap \<Rightarrow> Calendar \<Rightarrow> heap \<times> addr" where
  "cxxbridge1_GetMonthName h autocxx_gen_this =
     (let (h1, tmp) = GetMonthName_autocxx_wrapper h autocxx_gen_this;
          (p, tmp') = std_unique_ptr_release tmp
      in (std_unique_ptr_dtor h1 tmp', p))"

section \<open>Concrete states\<close>

text \<open>
  States and values the closed theorems below are evaluated at: the heap after
  \<open>shared_ptr_uninit\<close> on the empty heap, holding one live shared handle; a calendar; two
  time records.
\<close>

definition live_heap :: heap where
  "live_heap = fst (shared_ptr_uninit empty_heap Raw)"

definition sundas :: Calendar where
  "sundas = \<lparr>GetDayOfWeek = 0, GetMonth = 7, GetYear = 201, GetDayName = ''Sundas'',
     GetMonthName = ''Last Seed''\<rparr>"

definition midnight :: tm where
  "midnight = \<lparr>tm_sec = 0, tm_min = 0, tm_hour = 0, tm_mday = 1, tm_mon = 0, tm_year = 0,
     tm_wday = 0, tm_yday = 0, tm_isdst = 0\<rparr>"

definition noon :: tm where
  "noon = midnight\<lparr>tm_hour := 12\<rparr>"

section \<open>Basic facts about the heap\<close>

lemma set_use_count_simps [simp]:
  "use_count (set_use_count h c n) c' = (if c' = c then n else use_count h c')"
  "dtor_log (set_use_count h c n) = dtor_log h"
  "owned (set_use_count h c n) = owned h"
  "allocated (set_use_count h c n) = allocated h"
  "weak_count (set_use_count h c n) = weak_count h"
  "strings (set_use_count h c n) = strings h"
  "set_use_count (set_use_count h c m) c n = set_use_count h c n"
  "set_use_count h c (use_count h c) = h"
  by (simp_all add: set_use_count_def)

lemma set_weak_count_simps [simp]:
  "weak_count (set_weak_count h c n) c' = (if c' = c then n else weak_count h c')"
  "dtor_log (set_weak_count h c n) = dtor_log h"
  "owned (set_weak_count h c n) = owned h"
  "allocated (set_weak_count h c n) = allocated h"
  "use_count (set_weak_count h c n) = use_count h"
  "strings (set_weak_count h c n) = strings h"
  by (simp_all add: set_weak_count_def)

lemma delete_ptr_simps [simp]:
  "use_count (delete_ptr h p) = use_count h"
  "weak_count (delete_ptr h p) = weak_count h"
  "owned (delete_ptr h p) = owned h"
  "dtor_log (delete_ptr h p) = (if p = 0 then dtor_log h else dtor_log h @ [p])"
  by (simp_all add: delete_ptr_def)

lemma foldr_max_ge: "x \<in> set used \<Longrightarrow> x \<le> foldr max used (0::nat)"
  by (induction used) (auto simp: max_def)

lemma fresh_addr_fresh: "fresh_addr used \<notin> set used"
  using foldr_max_ge [of "fresh_addr used" used] by (auto simp: fresh_addr_def)

lemma fresh_addr_nonnull: "fresh_addr used \<noteq> 0"
  by (simp add: fresh_addr_def)

lemma shared_ptr_uninit_empty_heap:
  "shared_ptr_uninit empty_heap Raw = (live_heap, Obj (SharedPtr 1 (Some 0)), 1)"
  by (simp add: live_heap_def shared_ptr_uninit_def operator_new_def fresh_addr_def
      std_shared_ptr_from_raw_def empty_heap_def)

lemma live_heap_simps:
  "use_count live_heap 0 = 1" "owned live_heap 0 = 1" "dtor_log live_heap = []"
  by (simp_all add: live_heap_def shared_ptr_uninit_def operator_new_def fresh_addr_def
      std_shared_ptr_from_raw_def empty_heap_def)

section \<open>Shared handles\<close>

lemma shared_ptr_clone_n_counts:
  "sp_cb s = Some c \<Longrightarrow>
   shared_ptr_clone_n N h (Obj s)
     = Inr (set_use_count h c (use_count h c + N), replicate N (Obj s))"
proof (induction N arbitrary: h)
  case 0
  then show ?case by simp
next
  case (Suc N)
  then show ?case
    by (simp add: shared_ptr_clone_def std_shared_ptr_copy_def)
qed

lemma shared_ptr_drop_some:
  "sp_cb s = Some c \<Longrightarrow> k < use_count h c \<Longrightarrow>
   shared_ptr_drop_all h (replicate k (Obj s)) = Inr (set_use_count h c (use_count h c - k))"
proof (induction k arbitrary: h)
  case 0
  then show ?case by simp
next
  case (Suc k)
  then show ?case
    by (simp add: shared_ptr_drop_def std_shared_ptr_dtor_def)
qed

lemma shared_ptr_drop_last:
  "sp_cb s = Some c \<Longrightarrow> use_count h c = Suc k \<Longrightarrow>
   shared_ptr_drop_all h (replicate (Suc k) (Obj s))
     = Inr (delete_ptr (set_use_count h c 0) (owned h c))"
proof (induction k arbitrary: h)
  case 0
  then show ?case by (simp add: shared_ptr_drop_def std_shared_ptr_dtor_def)
next
  case (Suc k)
  have step: "shared_ptr_drop h (Obj s) = Inr (set_use_count h c (Suc k), Raw)"
    using Suc.prems by (simp add: shared_ptr_drop_def std_shared_ptr_dtor_def)
  have "shared_ptr_drop_all (set_use_count h c (Suc k)) (replicate (Suc k) (Obj s))
      = Inr (delete_ptr (set_use_count h c 0) (owned h c))"
    using Suc.IH [of "set_use_count h c (Suc k)"] Suc.prems(1) by simp
  with step show ?case by simp
qed

text \<open>
  C1. Let \<open>s\<close> be the one live shared handle of its control block \<open>c\<close>, which owns the
  referent \<open>p\<close>. \<open>N\<close> calls of \<open>clone\<close> on \<open>s\<close> succeed and each yields a handle equal to
  \<open>s\<close>. Of the \<open>N + 1\<close> handles then outstanding, dropping any \<open>k \<le> N\<close> runs no destructor
  and leaves \<open>N + 1 - k\<close> owners; dropping all \<open>N + 1\<close> runs the destructor of \<open>p\<close> exactly
  once, at the drop that takes the count to zero.
\<close>

theorem shared_ptr_last_drop_destroys:
  assumes "sp_cb s = Some c" and "owned h c = p" and "p \<noteq> 0" and "use_count h c = 1"
  shows "\<exists>h1. shared_ptr_clone_n N h (Obj s) = Inr (h1, replicate N (Obj s))
     \<and> (\<forall>k\<le>N. \<exists>h2. shared_ptr_drop_all h1 (replicate k (Obj s)) = Inr h2
            \<and> dtor_log h2 = dtor_log h \<and> use_count h2 c = N + 1 - k)
     \<and> (\<exists>h3. shared_ptr_drop_all h1 (replicate (N + 1) (Obj s)) = Inr h3
            \<and> dtor_log h3 = dtor_log h @ [p] \<and> use_count h3 c = 0)"
proof -
  define h1 where "h1 = set_use_count h c (use_count h c + N)"
  have cl: "shared_ptr_clone_n N h (Obj s) = Inr (h1, replicate N (Obj s))"
    unfolding h1_def by (rule shared_ptr_clone_n_counts [OF assms(1)])
  have cnt: "use_count h1 c = Suc N" and own: "owned h1 c = p" and lg: "dtor_log h1 = dtor_log h"
    using assms by (simp_all add: h1_def)
  have early: "\<exists>h2. shared_ptr_drop_all h1 (replicate k (Obj s)) = Inr h2
            \<and> dtor_log h2 = dtor_log h \<and> use_count h2 c = N + 1 - k" if "k \<le> N" for k
    using shared_ptr_drop_some [OF assms(1), of k h1] that cnt lg by simp
  have last: "shared_ptr_drop_all h1 (replicate (N + 1) (Obj s))
      = Inr (delete_ptr (set_use_count h1 c 0) p)"
    using shared_ptr_drop_last [OF assms(1) cnt] own by simp
  have "dtor_log (delete_ptr (set_use_count h1 c 0) p) = dtor_log h @ [p]"
    and "use_count (delete_ptr (set_use_count h1 c 0) p) c = 0"
    using assms(3) lg by simp_all
  with cl early last show ?thesis by blast
qed

theorem shared_ptr_last_drop_destroys_witness:
  "shared_ptr_uninit empty_heap Raw = (live_heap, Obj (SharedPtr 1 (Some 0)), 1)
   \<and> sp_cb (SharedPtr 1 (Some 0)) = Some 0 \<and> owned live_heap 0 = 1 \<and> use_count live_heap 0 = 1
   \<and> (\<exists>h1. shared_ptr_clone_n 2 live_heap (Obj (SharedPtr 1 (Some 0)))
              = Inr (h1, replicate 2 (Obj (SharedPtr 1 (Some 0))))
        \<and> (\<exists>h2. shared_ptr_drop_all h1 (replicate 2 (Obj (SharedPtr 1 (Some 0)))) = Inr h2
              \<and> dtor_log h2 = [] \<and> use_count h2 0 = 1)
        \<and> (\<exists>h3. shared_ptr_drop_all h1 (replicate 3 (Obj (SharedPtr 1 (Some 0)))) = Inr h3
              \<and> dtor_log h3 = [1] \<and> use_count h3 0 = 0))"
proof -
  have a: "sp_cb (SharedPtr 1 (Some 0)) = Some 0" by simp
  have b: "owned live_heap 0 = 1" and d: "use_count live_heap 0 = 1"
    by (simp_all add: live_heap_simps)
  have c: "(1::nat) \<noteq> 0" by simp
  obtain h1 where h1: "shared_ptr_clone_n 2 live_heap (Obj (SharedPtr 1 (Some 0)))
        = Inr (h1, replicate 2 (Obj (SharedPtr 1 (Some 0))))"
    and early: "\<forall>k\<le>2. \<exists>h2. shared_ptr_drop_all h1 (replicate k (Obj (SharedPtr 1 (Some 0)))) = Inr h2
        \<and> dtor_log h2 = dtor_log live_heap \<and> use_count h2 0 = 2 + 1 - k"
    and last: "\<exists>h3. shared_ptr_drop_all h1 (replicate (2 + 1) (Obj (SharedPtr 1 (Some 0)))) = Inr h3
        \<and> dtor_log h3 = dtor_log live_heap @ [1] \<and> use_count h3 0 = 0"
    using shared_ptr_last_drop_destroys [OF a b c d, of 2] by blast
  from spec [OF early, of 2] have "\<exists>h2. shared_ptr_drop_all h1 (replicate 2 (Obj (SharedPtr 1 (Some 0)))) = Inr h2
        \<and> dtor_log h2 = [] \<and> use_count h2 0 = 1"
    by (simp add: live_heap_simps)
  moreover from last have "\<exists>h3. shared_ptr_drop_all h1 (replicate 3 (Obj (SharedPtr 1 (Some 0)))) = Inr h3
        \<and> dtor_log h3 = [1] \<and> use_count h3 0 = 0"
    by (simp add: live_heap_simps)
  ultimately show ?thesis
    using h1 a b d shared_ptr_uninit_empty_heap by blast
qed

text \<open>
  C2. Let \<open>s\<close> be a shared handle with control block \<open>c\<close>, of which \<open>n\<close> shared handles are
  live, and let \<open>w\<close> be the observer \<open>downgrade\<close> creates from \<open>s\<close>. After \<open>k \<le> n\<close> of the
  shared handles have been dropped, \<open>upgrade\<close> of \<open>w\<close> writes a handle equal to \<open>s\<close> (same
  stored pointer, same control block, one more owner) if a shared handle is still live
  (\<open>k < n\<close>), and the empty handle if all have been dropped (\<open>k = n\<close>).
\<close>

theorem weak_ptr_upgrade_after_downgrade:
  assumes "sp_cb s = Some c" and "use_count h c = n" and "k \<le> n"
  shows "\<exists>h1 w h2. weak_ptr_downgrade h (Obj s) Raw = Inr (h1, w)
     \<and> shared_ptr_drop_all h1 (replicate k (Obj s)) = Inr h2
     \<and> weak_ptr_upgrade h2 w Raw =
         (if k < n then Inr (set_use_count h2 c (n - k + 1), Obj s)
          else Inr (h2, shared_ptr_null Raw))"
proof -
  define h1 where "h1 = set_weak_count h c (weak_count h c + 1)"
  define w where "w = WeakPtr (sp_stored s) (Some c)"
  have s_eq: "SharedPtr (sp_stored s) (Some c) = s"
    using assms(1) by (cases s) simp
  have dg: "weak_ptr_downgrade h (Obj s) Raw = Inr (h1, Obj w)"
    using assms(1) by (simp add: weak_ptr_downgrade_def std_weak_ptr_from_shared_def h1_def w_def)
  have cnt: "use_count h1 c = n"
    using assms(2) by (simp add: h1_def)
  show ?thesis
  proof (cases "k < n")
    case True
    define h2 where "h2 = set_use_count h1 c (n - k)"
    have dr: "shared_ptr_drop_all h1 (replicate k (Obj s)) = Inr h2"
      using shared_ptr_drop_some [OF assms(1), of k h1] True cnt by (simp add: h2_def)
    have "use_count h2 c = n - k" by (simp add: h2_def)
    with True have "weak_ptr_upgrade h2 (Obj w) Raw = Inr (set_use_count h2 c (n - k + 1), Obj s)"
      by (simp add: weak_ptr_upgrade_def std_weak_ptr_lock_def std_weak_ptr_expired_def w_def s_eq)
    with dg dr True show ?thesis by auto
  next
    case False
    with assms(3) have kn: "k = n" by simp
    obtain h2 where dr: "shared_ptr_drop_all h1 (replicate k (Obj s)) = Inr h2"
      and z: "use_count h2 c = 0"
    proof (cases n)
      case 0
      with kn cnt that [of h1] show ?thesis by simp
    next
      case (Suc m)
      with kn cnt shared_ptr_drop_last [OF assms(1), of h1 m]
        that [of "delete_ptr (set_use_count h1 c 0) (owned h1 c)"]
      show ?thesis by simp
    qed
    from z have "weak_ptr_upgrade h2 (Obj w) Raw = Inr (h2, shared_ptr_null Raw)"
      by (simp add: weak_ptr_upgrade_def std_weak_ptr_lock_def std_weak_ptr_expired_def w_def
          shared_ptr_null_def)
    with dg dr False show ?thesis by auto
  qed
qed

theorem weak_ptr_upgrade_after_downgrade_witness:
  "sp_cb (SharedPtr 1 (Some 0)) = Some 0 \<and> use_count live_heap 0 = 1 \<and> (1::nat) \<le> 1
   \<and> (\<exists>h1 w h2. weak_ptr_downgrade live_heap (Obj (SharedPtr 1 (Some 0))) Raw = Inr (h1, w)
        \<and> shared_ptr_drop_all h1 (replicate 0 (Obj (SharedPtr 1 (Some 0)))) = Inr h2
        \<and> weak_ptr_upgrade h2 w Raw = Inr (set_use_count h2 0 2, Obj (SharedPtr 1 (Some 0))))
   \<and> (\<exists>h1 w h2. weak_ptr_downgrade live_heap (Obj (SharedPtr 1 (Some 0))) Raw = Inr (h1, w)
        \<and> shared_ptr_drop_all h1 (replicate 1 (Obj (SharedPtr 1 (Some 0)))) = Inr h2
        \<and> weak_ptr_upgrade h2 w Raw = Inr (h2, Obj (SharedPtr 0 None)))"
proof -
  have a: "sp_cb (SharedPtr 1 (Some 0)) = Some 0" by simp
  have b: "use_count live_heap 0 = 1" by (simp add: live_heap_simps)
  have "\<exists>h1 w h2. weak_ptr_downgrade live_heap (Obj (SharedPtr 1 (Some 0))) Raw = Inr (h1, w)
        \<and> shared_ptr_drop_all h1 (replicate 0 (Obj (SharedPtr 1 (Some 0)))) = Inr h2
        \<and> weak_ptr_upgrade h2 w Raw = Inr (set_use_count h2 0 2, Obj (SharedPtr 1 (Some 0)))"
    using weak_ptr_upgrade_after_downgrade [OF a b, of 0] by (simp add: numeral_2_eq_2)
  moreover have "\<exists>h1 w h2. weak_ptr_downgrade live_heap (Obj (SharedPtr 1 (Some 0))) Raw = Inr (h1, w)
        \<and> shared_ptr_drop_all h1 (replicate 1 (Obj (SharedPtr 1 (Some 0)))) = Inr h2
        \<and> weak_ptr_upgrade h2 w Raw = Inr (h2, Obj (SharedPtr 0 None))"
    using weak_ptr_upgrade_after_downgrade [OF a b, of 1] by (simp add: shared_ptr_null_def)
  ultimately show ?thesis using a b by blast
qed

section \<open>Exclusive handles\<close>

text \<open>
  C3 as stated fails: with no \<open>release\<close> between them, the second of two \<open>drop\<close> calls on
  one handle is not a no-op. The first call deletes the referent and ends the lifetime of
  the handle; the second runs \<^verbatim>\<open>~unique_ptr()\<close> on storage that holds no object.
\<close>

theorem unique_ptr_double_drop_counterexample:
  "unique_ptr_drop empty_heap (Obj (UniquePtr 1)) = Inr (empty_heap\<lparr>dtor_log := [1]\<rparr>, Raw)
   \<and> unique_ptr_drop (empty_heap\<lparr>dtor_log := [1]\<rparr>) Raw = Inl UB"
  by (simp add: unique_ptr_drop_def deleter_if_def is_complete_Calendar_def destroy_unique_ptr_def
      std_unique_ptr_dtor_def delete_ptr_def empty_heap_def)

lemma unique_ptr_calls_Raw:
  assumes "unique_ptr_calls h Raw cs = Inr r"
  shows "cs = []"
proof (cases cs)
  case Nil
  then show ?thesis .
next
  case (Cons c cs')
  with assms show ?thesis
    by (cases c)
      (simp_all add: unique_ptr_get_def unique_ptr_release_def unique_ptr_drop_def deleter_if_def
        is_complete_Calendar_def destroy_unique_ptr_def)
qed

lemma unique_ptr_calls_destroy_at_most_once:
  "unique_ptr_calls h (Obj u) cs = Inr (h', ptr') \<Longrightarrow>
   dtor_log h' = dtor_log h \<or> (stored u \<noteq> 0 \<and> dtor_log h' = dtor_log h @ [stored u])"
proof (induction cs arbitrary: h u)
  case Nil
  then show ?case by simp
next
  case (Cons c cs)
  show ?case
  proof (cases c)
    case Get
    with Cons show ?thesis by (simp add: unique_ptr_get_def)
  next
    case Release
    with Cons.prems have "unique_ptr_calls h (Obj (UniquePtr 0)) cs = Inr (h', ptr')"
      by (simp add: unique_ptr_release_def std_unique_ptr_release_def)
    from Cons.IH [OF this] show ?thesis by simp
  next
    case Drop
    with Cons.prems have run: "unique_ptr_calls (std_unique_ptr_dtor h u) Raw cs = Inr (h', ptr')"
      by (simp add: unique_ptr_drop_def deleter_if_def is_complete_Calendar_def
          destroy_unique_ptr_def)
    then have "cs = []" by (rule unique_ptr_calls_Raw)
    with run have "h' = std_unique_ptr_dtor h u" by simp
    then show ?thesis by (simp add: std_unique_ptr_dtor_def)
  qed
qed

text \<open>
  C3, amended. \<open>drop\<close> on a live exclusive handle runs the destructor of the referent
  exactly once if the stored pointer is not null, and none if it is null: on a handle that
  \<open>null\<close> made, or after \<open>release\<close>, it leaves the heap as it was. It ends the lifetime of
  the handle, so a second \<open>drop\<close> on the same handle is outside the contract, with or
  without an attempted \<open>release\<close> in between. No run of \<open>get\<close>, \<open>release\<close> and \<open>drop\<close>
  calls on one handle that ends without a fault runs a destructor other than that of the
  referent, or runs it twice.
\<close>

theorem unique_ptr_drop_once:
  "and_then (unique_ptr_drop h (Obj u)) (\<lambda>(h1, ptr). Inr (dtor_log h1, ptr))
     = Inr (dtor_log h @ (if stored u = 0 then [] else [stored u]), Raw)
   \<and> unique_ptr_drop h (unique_ptr_null ptr0) = Inr (h, Raw)
   \<and> and_then (unique_ptr_release (Obj u)) (\<lambda>(p, ptr). unique_ptr_drop h ptr) = Inr (h, Raw)
   \<and> and_then (unique_ptr_drop h (Obj u)) (\<lambda>(h1, ptr). unique_ptr_drop h1 ptr) = Inl UB
   \<and> and_then (unique_ptr_drop h (Obj u))
        (\<lambda>(h1, ptr). and_then (unique_ptr_release ptr) (\<lambda>(p, ptr'). unique_ptr_drop h1 ptr'))
       = Inl UB
   \<and> (unique_ptr_calls h (Obj u) cs = Inr (h', ptr') \<longrightarrow>
        dtor_log h' = dtor_log h \<or> (stored u \<noteq> 0 \<and> dtor_log h' = dtor_log h @ [stored u]))"
  using unique_ptr_calls_destroy_at_most_once [of h u cs h' ptr']
  by (simp add: unique_ptr_release_def std_unique_ptr_release_def and_then_def
      unique_ptr_drop_def deleter_if_def is_complete_Calendar_def destroy_unique_ptr_def
      std_unique_ptr_dtor_def delete_ptr_def unique_ptr_null_def)

theorem unique_ptr_drop_once_witness:
  "unique_ptr_calls empty_heap (Obj (UniquePtr 1)) [Get, Drop] = Inr (empty_heap\<lparr>dtor_log := [1]\<rparr>, Raw)
   \<and> dtor_log (empty_heap\<lparr>dtor_log := [1]\<rparr>) = dtor_log empty_heap @ [1]
   \<and> unique_ptr_calls empty_heap (Obj (UniquePtr 1)) [Release, Drop] = Inr (empty_heap, Raw)
   \<and> and_then (unique_ptr_drop empty_heap (Obj (UniquePtr 1))) (\<lambda>(h1, ptr). unique_ptr_drop h1 ptr)
       = Inl UB"
  using unique_ptr_drop_once [of empty_heap "UniquePtr 1" Raw "[Get, Drop]"
      "empty_heap\<lparr>dtor_log := [1]\<rparr>" Raw]
  by (simp add: unique_ptr_get_def unique_ptr_release_def std_unique_ptr_release_def
      unique_ptr_drop_def deleter_if_def is_complete_Calendar_def destroy_unique_ptr_def
      std_unique_ptr_dtor_def delete_ptr_def empty_heap_def)

text \<open>
  C4. \<open>release\<close> on a live exclusive handle returns the stored pointer \<open>p\<close> and leaves the
  handle null: \<open>get\<close> then returns the null pointer, and \<open>drop\<close> of the handle leaves the
  heap as it was, so the referent is not destroyed through it. For a null handle the
  pointer returned is null and the handle stays null.
\<close>

theorem unique_ptr_release_transfers:
  "unique_ptr_release (Obj u) = Inr (stored u, unique_ptr_null (Obj u))
   \<and> and_then (unique_ptr_release (Obj u)) (\<lambda>(p, ptr). unique_ptr_get h ptr)
       = Inr (h, unique_ptr_null (Obj u), 0)
   \<and> and_then (unique_ptr_release (Obj u)) (\<lambda>(p, ptr). unique_ptr_drop h ptr) = Inr (h, Raw)
   \<and> unique_ptr_release (unique_ptr_null ptr0) = Inr (0, unique_ptr_null ptr0)"
  by (simp add: unique_ptr_release_def std_unique_ptr_release_def and_then_def unique_ptr_get_def
      unique_ptr_drop_def deleter_if_def is_complete_Calendar_def destroy_unique_ptr_def
      std_unique_ptr_dtor_def unique_ptr_null_def)

text \<open>
  C10. \<open>get\<close> on a live exclusive or shared handle returns the pointer stored in it, the
  null pointer for a handle in the null state, and leaves the memory as it was: the handle
  holds the same stored pointer and control block, and the heap is the same, so that the
  use counts, the weak counts, the owned pointers, the allocations and the destructor log
  are unchanged. Hence a call made after \<open>get\<close>, on the state \<open>get\<close> left, has the
  outcome it has without it.
\<close>

theorem get_is_pure_observer:
  "unique_ptr_get h (Obj u) = Inr (h, Obj u, stored u)
   \<and> unique_ptr_get h (unique_ptr_raw ptr0 p) = Inr (h, unique_ptr_raw ptr0 p, p)
   \<and> unique_ptr_get h (unique_ptr_null ptr0) = Inr (h, unique_ptr_null ptr0, 0)
   \<and> shared_ptr_get h (Obj s) = Inr (h, Obj s, sp_stored s)
   \<and> shared_ptr_get h (shared_ptr_null ptr1) = Inr (h, shared_ptr_null ptr1, 0)
   \<and> and_then (unique_ptr_get h (Obj u))
        (\<lambda>(h', ptr', q). Inr (ptr', dtor_log h', allocated h', strings h'))
       = Inr (Obj u, dtor_log h, allocated h, strings h)
   \<and> and_then (shared_ptr_get h (Obj s))
        (\<lambda>(h', self', q). Inr (self', use_count h', weak_count h', owned h', dtor_log h',
           allocated h'))
       = Inr (Obj s, use_count h, weak_count h, owned h, dtor_log h, allocated h)
   \<and> and_then (unique_ptr_get h ptr) (\<lambda>(h', ptr', q). unique_ptr_get h' ptr')
       = unique_ptr_get h ptr
   \<and> and_then (unique_ptr_get h ptr) (\<lambda>(h', ptr', q). unique_ptr_release ptr')
       = unique_ptr_release ptr
   \<and> and_then (unique_ptr_get h ptr) (\<lambda>(h', ptr', q). unique_ptr_drop h' ptr')
       = unique_ptr_drop h ptr
   \<and> and_then (shared_ptr_get h self) (\<lambda>(h', self', q). shared_ptr_get h' self')
       = shared_ptr_get h self
   \<and> and_then (shared_ptr_get h self) (\<lambda>(h', self', q). shared_ptr_clone h' self' ptr2)
       = shared_ptr_clone h self ptr2
   \<and> and_then (shared_ptr_get h self) (\<lambda>(h', self', q). shared_ptr_drop h' self')
       = shared_ptr_drop h self
   \<and> and_then (shared_ptr_get h self) (\<lambda>(h', self', q). weak_ptr_downgrade h' self' ptr3)
       = weak_ptr_downgrade h self ptr3"
  by (cases ptr; cases self)
    (simp_all add: unique_ptr_get_def unique_ptr_raw_def unique_ptr_null_def shared_ptr_get_def
      shared_ptr_null_def and_then_def unique_ptr_release_def unique_ptr_drop_def deleter_if_def
      is_complete_Calendar_def destroy_unique_ptr_def shared_ptr_clone_def shared_ptr_drop_def
      weak_ptr_downgrade_def)

section \<open>The sequence adapter\<close>

text \<open>
  C5. \<open>push_back\<close> of a live element \<open>x\<close> appends \<open>x\<close> to the sequence and destroys the
  caller-side slot. \<open>pop_back\<close> right after it gives back the sequence as it was before
  the \<open>push_back\<close>, so its size and its last element are the prior ones, and writes into
  \<open>out\<close> the element that was last when it was called, which is \<open>x\<close>.
\<close>

theorem vector_tm_push_pop_roundtrip:
  "vector_tm_push_back v (Obj x) = Inr (v @ [x], Raw)
   \<and> and_then (vector_tm_push_back v (Obj x))
        (\<lambda>(v1, val). and_then (vector_tm_pop_back v1 out)
           (\<lambda>(v2, out'). Inr (v2, vector_tm_size v2, val, out')))
       = Inr (v, vector_tm_size v, Raw, Obj x)"
  by (simp add: vector_tm_push_back_def destroy_def vector_tm_pop_back_def and_then_def)

lemma vector_tm_push_back_all_append:
  "vector_tm_push_back_all v xs = Inr (v @ xs)"
  by (induction xs arbitrary: v) (simp_all add: vector_tm_push_back_def destroy_def)

text \<open>
  C6. Pushing the \<open>N\<close> elements of \<open>xs\<close> in turn onto the sequence \<open>new\<close> creates succeeds;
  \<open>size\<close> of the result is \<open>N\<close>, and for each \<open>i\<close> below it \<open>get_unchecked\<close> designates the
  \<open>i\<close>-th element pushed.
\<close>

theorem vector_tm_size_and_order:
  "\<exists>v. vector_tm_push_back_all vector_tm_new xs = Inr v
     \<and> vector_tm_size v = length xs
     \<and> (\<forall>i<vector_tm_size v. vector_tm_get_unchecked v i = Inr (xs ! i))"
  by (simp add: vector_tm_push_back_all_append vector_tm_new_def vector_tm_size_def
      vector_tm_get_unchecked_def)

theorem vector_tm_size_and_order_witness:
  "\<exists>v. vector_tm_push_back_all vector_tm_new [midnight, noon] = Inr v
     \<and> vector_tm_size v = 2 \<and> (1::nat) < vector_tm_size v
     \<and> vector_tm_get_unchecked v 0 = Inr midnight
     \<and> vector_tm_get_unchecked v 1 = Inr noon"
proof -
  obtain v where v: "vector_tm_push_back_all vector_tm_new [midnight, noon] = Inr v"
    and n: "vector_tm_size v = length [midnight, noon]"
    and g: "\<forall>i<vector_tm_size v. vector_tm_get_unchecked v i = Inr ([midnight, noon] ! i)"
    using vector_tm_size_and_order [of "[midnight, noon]"] by blast
  from n have n2: "vector_tm_size v = 2" by simp
  with g have "vector_tm_get_unchecked v 0 = Inr midnight" "vector_tm_get_unchecked v 1 = Inr noon"
    by simp_all
  with v n2 show ?thesis by simp
qed

section \<open>The relocatability gate\<close>

text \<open>
  C7 as stated fails: a type that declares \<^verbatim>\<open>IsRelocatable\<close> as \<^verbatim>\<open>std::false_type\<close> and
  is both trivially move-constructible and trivially destructible is not relocatable,
  although the second alternative of the claim holds of it.
\<close>

theorem IsRelocatable_opt_out_counterexample:
  "\<not> (IsRelocatable \<lparr>member_IsRelocatable = Some std_false_type,
          is_trivially_move_constructible = True, is_trivially_destructible = True\<rparr>
       \<longleftrightarrow> (member_IsRelocatable \<lparr>member_IsRelocatable = Some std_false_type,
               is_trivially_move_constructible = True, is_trivially_destructible = True\<rparr>
             = Some std_true_type
           \<or> (is_trivially_move_constructible \<lparr>member_IsRelocatable = Some std_false_type,
               is_trivially_move_constructible = True, is_trivially_destructible = True\<rparr>
              \<and> is_trivially_destructible \<lparr>member_IsRelocatable = Some std_false_type,
               is_trivially_move_constructible = True, is_trivially_destructible = True\<rparr>)))"
  by (simp add: IsRelocatable_def is_detected_IsRelocatable_def get_IsRelocatable_def)

text \<open>
  C7, amended. The predicate holds exactly when \<open>T\<close> declares a member \<^verbatim>\<open>IsRelocatable\<close>
  that is \<^verbatim>\<open>std::true_type\<close>, or \<open>T\<close> declares no such member and is both trivially
  move-constructible and trivially destructible: a declared member decides alone. The
  static assertion on the type \<^verbatim>\<open>c_uint\<close> names lets the build pass exactly when the
  predicate holds of it, so a type that fails it is rejected when building, and the scalar
  type \<^verbatim>\<open>unsigned int\<close> passes.
\<close>

theorem IsRelocatable_iff:
  "(IsRelocatable T \<longleftrightarrow>
      member_IsRelocatable T = Some std_true_type
      \<or> (member_IsRelocatable T = None \<and> is_trivially_move_constructible T
           \<and> is_trivially_destructible T))
   \<and> (static_assert_IsRelocatable T = Compiles \<longleftrightarrow> IsRelocatable T)
   \<and> static_assert_IsRelocatable c_uint_type = Compiles"
  by (auto simp: IsRelocatable_def is_detected_IsRelocatable_def get_IsRelocatable_def
      static_assert_IsRelocatable_def c_uint_type_def)

section \<open>Call trampolines\<close>

text \<open>
  C8. Each of the trampolines of \<open>GetDayOfWeek\<close>, \<open>GetMonth\<close> and \<open>GetYear\<close> has the
  caller's storage as its only result, and constructs in it the value the native member
  function returns, whatever the storage held.
\<close>

theorem enum_returns_in_place:
  "RE_Calendar_GetDayOfWeek self ret = Obj (GetDayOfWeek self)
   \<and> RE_Calendar_GetMonth self ret = Obj (GetMonth self)
   \<and> RE_Calendar_GetYear self ret = Obj (GetYear self)"
  by (simp add: RE_Calendar_GetDayOfWeek_def RE_Calendar_GetMonth_def RE_Calendar_GetYear_def)

lemma cxxbridge1_GetDayName_eq:
  "cxxbridge1_GetDayName h self
   = (h\<lparr>allocated := fresh_addr (allocated h) # allocated h,
        strings := (strings h)(fresh_addr (allocated h) \<mapsto> GetDayName self)\<rparr>,
      fresh_addr (allocated h))"
  by (simp add: cxxbridge1_GetDayName_def GetDayName_autocxx_wrapper_def make_unique_string_def
      operator_new_def Let_def std_unique_ptr_release_def std_unique_ptr_dtor_def)

lemma cxxbridge1_GetMonthName_eq:
  "cxxbridge1_GetMonthName h self
   = (h\<lparr>allocated := fresh_addr (allocated h) # allocated h,
        strings := (strings h)(fresh_addr (allocated h) \<mapsto> GetMonthName self)\<rparr>,
      fresh_addr (allocated h))"
  by (simp add: cxxbridge1_GetMonthName_def GetMonthName_autocxx_wrapper_def make_unique_string_def
      operator_new_def Let_def std_unique_ptr_release_def std_unique_ptr_dtor_def)

text \<open>
  C9. The trampolines of \<open>GetDayName\<close> and \<open>GetMonthName\<close> return a pointer that is not
  null and was not allocated before the call; after the call it is allocated, no
  destructor has run, the string at it is the text of the native member function, and
  every other string is as it was.
\<close>

theorem string_returns_owned_copy:
  assumes "cxxbridge1_GetDayName h self = (h1, p)" and "cxxbridge1_GetMonthName h self = (h2, q)"
  shows "p \<noteq> 0 \<and> p \<notin> set (allocated h) \<and> p \<in> set (allocated h1)
     \<and> strings h1 p = Some (GetDayName self) \<and> dtor_log h1 = dtor_log h
     \<and> (\<forall>a. a \<noteq> p \<longrightarrow> strings h1 a = strings h a)
     \<and> q \<noteq> 0 \<and> q \<notin> set (allocated h) \<and> q \<in> set (allocated h2)
     \<and> strings h2 q = Some (GetMonthName self) \<and> dtor_log h2 = dtor_log h
     \<and> (\<forall>a. a \<noteq> q \<longrightarrow> strings h2 a = strings h a)"
proof -
  have p: "p = fresh_addr (allocated h)" and q: "q = fresh_addr (allocated h)"
    and h1: "h1 = h\<lparr>allocated := p # allocated h, strings := (strings h)(p \<mapsto> GetDayName self)\<rparr>"
    and h2: "h2 = h\<lparr>allocated := q # allocated h, strings := (strings h)(q \<mapsto> GetMonthName self)\<rparr>"
    using assms by (auto simp: cxxbridge1_GetDayName_eq cxxbridge1_GetMonthName_eq)
  show ?thesis
    using fresh_addr_fresh [of "allocated h"] fresh_addr_nonnull [of "allocated h"]
    by (simp add: p q h1 h2)
qed

theorem string_returns_owned_copy_witness:
  "cxxbridge1_GetDayName empty_heap sundas
     = (empty_heap\<lparr>allocated := [1], strings := [1 \<mapsto> ''Sundas'']\<rparr>, 1)
   \<and> cxxbridge1_GetMonthName empty_heap sundas
     = (empty_heap\<lparr>allocated := [1], strings := [1 \<mapsto> ''Last Seed'']\<rparr>, 1)
   \<and> 1 \<notin> set (allocated empty_heap)
   \<and> strings (empty_heap\<lparr>allocated := [1], strings := [1 \<mapsto> ''Sundas'']\<rparr>) 1 = Some ''Sundas''
   \<and> strings (empty_heap\<lparr>allocated := [1], strings := [1 \<mapsto> ''Last Seed'']\<rparr>) 1
       = Some ''Last Seed''"
proof -
  have a: "cxxbridge1_GetDayName empty_heap sundas
      = (empty_heap\<lparr>allocated := [1], strings := [1 \<mapsto> ''Sundas'']\<rparr>, 1)"
    by (simp add: cxxbridge1_GetDayName_eq fresh_addr_def empty_heap_def sundas_def)
  have b: "cxxbridge1_GetMonthName empty_heap sundas
      = (empty_heap\<lparr>allocated := [1], strings := [1 \<mapsto> ''Last Seed'']\<rparr>, 1)"
    by (simp add: cxxbridge1_GetMonthName_eq fresh_addr_def empty_heap_def sundas_def)
  from string_returns_owned_copy [OF a b] show ?thesis
    using a b by (simp add: sundas_def)
qed

end
